theory Spec2Isabelle
  imports Main
begin

section \<open>Python values used by getdata\_alta.py\<close>

text \<open>
  The script works on Python integers (unbounded, modelled as \<open>int\<close>) and on ASCII
  strings (modelled as \<open>string\<close>); the library functions are those of Python 3.  Every exception the script can raise is a value of
  \<open>error\<close>; a computation that may raise returns \<open>error + 'a\<close> with \<open>Inl\<close> for the
  exception.  The three places that raise \<open>ValueError\<close> are kept apart by the payload.
\<close>

datatype value_error =
    EndSmallerThanBegin string  \<comment> \<open>raised by \<open>parse_list\<close> itself, with the offending part\<close>
  | InvalidLiteral string       \<comment> \<open>raised by \<open>int(s)\<close>\<close>
  | UnpackMismatch              \<comment> \<open>raised by \<open>begin, end = ...\<close> on a list of other than two items\<close>

datatype error =
    ValueError value_error
  | OSError
  | CalledProcessError int
  | IndexError

subsection \<open>Characters\<close>

definition is_digit :: "char \<Rightarrow> bool" where
  "is_digit c = (c \<in> set ''0123456789'')"

definition digit_val :: "char \<Rightarrow> nat" where
  "digit_val c = of_char c - 48"

definition digit_char :: "nat \<Rightarrow> char" where
  "digit_char d = ''0123456789'' ! d"

text \<open>
  Whitespace as \<open>str.split()\<close>, \<open>str.strip()\<close> and \<open>int()\<close> see it on ASCII text: tab, line
  feed, vertical tab, form feed, carriage return, the four separators 0x1C..0x1F and space.
\<close>

definition is_space :: "char \<Rightarrow> bool" where
  "is_space c = (c \<in> set [CHR 0x09, CHR 0x0A, CHR 0x0B, CHR 0x0C, CHR 0x0D,
                            CHR 0x1C, CHR 0x1D, CHR 0x1E, CHR 0x1F, CHR 0x20])"

subsection \<open>Integers to text: \<open>str(i)\<close>, \<open>{i:0Nd}\<close> and \<open>%.Nd\<close>\<close>

fun digits :: "nat \<Rightarrow> string" where
  "digits n = (if n < 10 then [digit_char n] else digits (n div 10) @ [digit_char (n mod 10)])"

declare digits.simps [simp del]

definition zpad :: "nat \<Rightarrow> string \<Rightarrow> string" where
  "zpad w s = replicate (w - length s) CHR ''0'' @ s"

definition str_int :: "int \<Rightarrow> string" where
  "str_int i = (if i < 0 then CHR ''-'' # digits (nat (- i)) else digits (nat i))"

text \<open>
  \<open>'{:0Nd}'.format(i)\<close>: zero padding to a total width of \<open>N\<close>, the sign counted in the
  width (\<open>'{:03d}'.format(-5) = '-05'\<close>).
\<close>

definition fmt_0d :: "nat \<Rightarrow> int \<Rightarrow> string" where
  "fmt_0d w i = (if i < 0 then CHR ''-'' # zpad (w - 1) (digits (nat (- i)))
                 else zpad w (digits (nat i)))"

text \<open>
  \<open>'%.Nd' % i\<close>: at least \<open>N\<close> digits, the sign in front of them
  (\<open>'%.3d' % -5 = '-005'\<close>).
\<close>

definition pct_prec_d :: "nat \<Rightarrow> int \<Rightarrow> string" where
  "pct_prec_d p i = (if i < 0 then CHR ''-'' # zpad p (digits (nat (- i)))
                     else zpad p (digits (nat i)))"

subsection \<open>Text to integers: \<open>int(s)\<close>\<close>

definition strip :: "string \<Rightarrow> string" where
  "strip s = rev (dropWhile is_space (rev (dropWhile is_space s)))"

text \<open>
  The digits after the first one: decimal digits, single underscores allowed between two
  digits.  The accumulator is the value read so far.
\<close>

fun more_digits :: "nat \<Rightarrow> string \<Rightarrow> nat option" where
  "more_digits acc [] = Some acc"
| "more_digits acc [c] = (if is_digit c then Some (10 * acc + digit_val c) else None)"
| "more_digits acc (c # d # ds) =
     (if is_digit c then more_digits (10 * acc + digit_val c) (d # ds)
      else if c = CHR ''_'' \<and> is_digit d then more_digits (10 * acc + digit_val d) ds
      else None)"

fun digits_value :: "string \<Rightarrow> nat option" where
  "digits_value [] = None"
| "digits_value (c # cs) = (if is_digit c then more_digits (digit_val c) cs else None)"

definition py_int :: "string \<Rightarrow> error + int" where
  "py_int s =
     (let t = strip s;
          neg = (case t of [] \<Rightarrow> False | c # _ \<Rightarrow> c = CHR ''-'');
          body = (case t of [] \<Rightarrow> []
                  | c # cs \<Rightarrow> if c = CHR ''-'' \<or> c = CHR ''+'' then cs else t)
      in case digits_value body of
           None \<Rightarrow> Inl (ValueError (InvalidLiteral s))
         | Some n \<Rightarrow> Inr (if neg then - int n else int n))"

subsection \<open>Splitting and comparing strings\<close>

text \<open>\<open>s.split(sep)\<close> for a one-character separator: always at least one part.\<close>

fun split_on :: "char \<Rightarrow> string \<Rightarrow> string list" where
  "split_on sep [] = [[]]"
| "split_on sep (c # cs) =
     (if c = sep then [] # split_on sep cs
      else (case split_on sep cs of
              [] \<Rightarrow> [[c]]
            | p # ps \<Rightarrow> (c # p) # ps))"

text \<open>\<open>s.split()\<close>: the maximal runs of non-whitespace characters.\<close>

fun split_ws_acc :: "string \<Rightarrow> string \<Rightarrow> string list" where
  "split_ws_acc cur [] = (if cur = [] then [] else [cur])"
| "split_ws_acc cur (c # cs) =
     (if is_space c then (if cur = [] then split_ws_acc [] cs else cur # split_ws_acc [] cs)
      else split_ws_acc (cur @ [c]) cs)"

definition split_ws :: "string \<Rightarrow> string list" where
  "split_ws s = split_ws_acc [] s"

text \<open>\<open>a < b\<close> on strings: lexicographic by character code, a proper prefix is smaller.\<close>

fun str_less :: "string \<Rightarrow> string \<Rightarrow> bool" where
  "str_less [] [] = False"
| "str_less [] (y # ys) = True"
| "str_less (x # xs) [] = False"
| "str_less (x # xs) (y # ys) =
     (if (of_char x :: nat) < of_char y then True
      else if (of_char y :: nat) < of_char x then False
      else str_less xs ys)"

text \<open>\<open>s[-n:]\<close>: the last \<open>n\<close> characters, all of \<open>s\<close> when it is shorter.\<close>

definition last_chars :: "nat \<Rightarrow> string \<Rightarrow> string" where
  "last_chars n s = drop (length s - n) s"

section \<open>\<open>parse_list\<close>\<close>

text \<open>
  One pass of the loop body of \<open>parse_list\<close> (source lines 40 to 47): the integers the part
  \<open>spec_part\<close> adds to \<open>ret_list\<close>, or the exception it raises.  \<open>range(b, e + 1)\<close> is
  \<open>[b..e]\<close>, empty when \<open>e < b\<close>.
\<close>

definition parse_part :: "string \<Rightarrow> error + int list" where
  "parse_part spec_part =
     (if CHR ''-'' \<in> set spec_part then
        (case split_on CHR ''-'' spec_part of
           [begin, end] \<Rightarrow>
             if str_less end begin then Inl (ValueError (EndSmallerThanBegin spec_part))
             else (case py_int begin of
                     Inl e \<Rightarrow> Inl e
                   | Inr b \<Rightarrow> (case py_int end of
                                Inl e \<Rightarrow> Inl e
                              | Inr e \<Rightarrow> Inr [b..e]))
         | _ \<Rightarrow> Inl (ValueError UnpackMismatch))
      else (case py_int spec_part of
              Inl e \<Rightarrow> Inl e
            | Inr n \<Rightarrow> Inr [n]))"

text \<open>The loop over the parts, \<open>ret_list\<close> being the accumulator; an exception ends it.\<close>

fun parse_parts :: "int list \<Rightarrow> string list \<Rightarrow> error + int list" where
  "parse_parts ret_list [] = Inr ret_list"
| "parse_parts ret_list (spec_part # rest) =
     (case parse_part spec_part of
        Inl e \<Rightarrow> Inl e
      | Inr xs \<Rightarrow> parse_parts (ret_list @ xs) rest)"

definition parse_list :: "string \<Rightarrow> error + int list" where
  "parse_list spec = parse_parts [] (split_on CHR '','' spec)"

section \<open>The outside world\<close>

text \<open>
  The script reaches the archive and the file system only through five library calls.  Their
  effect is not part of the script, so the model takes them as an environment over a state
  \<open>'w\<close> of the outside world, which every call may change:
  \<^item> \<open>subprocess_call argv\<close> is \<open>subprocess.call(argv, ...)\<close>: the exit status of the
    program, or \<open>None\<close> when the program cannot be started (Python raises \<open>OSError\<close>);
  \<^item> \<open>shell cmd\<close> runs \<open>cmd\<close> through the shell and gives its exit status; it stands
    behind \<open>subprocess.check_call(cmd, shell=True, ...)\<close>, which raises
    \<open>CalledProcessError\<close> on a status other than 0, and behind \<open>os.system(cmd)\<close>, whose
    status the script ignores;
  \<^item> \<open>os_rename\<close> and \<open>os_remove\<close> answer \<open>False\<close> when Python raises \<open>OSError\<close>;
  \<^item> \<open>popen_read cmd\<close> is \<open>os.popen(cmd).read()\<close>.

  Logging, \<open>print\<close> and the timing of the transfer report only and are left out.
\<close>

record 'w env =
  subprocess_call :: "string list \<Rightarrow> 'w \<Rightarrow> int option \<times> 'w"
  shell :: "string \<Rightarrow> 'w \<Rightarrow> int \<times> 'w"
  os_rename :: "string \<Rightarrow> string \<Rightarrow> 'w \<Rightarrow> bool \<times> 'w"
  os_remove :: "string \<Rightarrow> 'w \<Rightarrow> bool \<times> 'w"
  popen_read :: "string \<Rightarrow> 'w \<Rightarrow> string \<times> 'w"

text \<open>
  An environment for running the model on concrete inputs: the world is the list of the
  calls made so far, every command succeeds, and \<open>ils\<close> answers as the given function says.
\<close>

datatype event =
    Call "string list"
  | Shell string
  | Rename string string
  | Remove string
  | Popen string

definition recording :: "(string list \<Rightarrow> int option) \<Rightarrow> event list env" where
  "recording ils =
     \<lparr> subprocess_call = (\<lambda>argv w. (ils argv, w @ [Call argv])),
       shell = (\<lambda>cmd w. (0, w @ [Shell cmd])),
       os_rename = (\<lambda>src dst w. (True, w @ [Rename src dst])),
       os_remove = (\<lambda>p w. (True, w @ [Remove p])),
       popen_read = (\<lambda>cmd w. (''0'', w @ [Popen cmd])) \<rparr>"

section \<open>\<open>get_alta_dir\<close>\<close>

text \<open>
  The five format strings of \<open>get_alta_dir\<close> (source lines 75 and 86, 80, 82, 84, 88).  The
  date is a Python \<open>int\<close>, as in the doctests of the script: \<open>{date}\<close> and \<open>str(date)\<close> are
  its decimal text and \<open>int(date)\<close> is the date itself.
\<close>

definition stage_tar :: "int \<Rightarrow> int \<Rightarrow> int \<Rightarrow> string" where
  "stage_tar date task_id beam_nr =
     ''/altaZone/stage/apertif_main/visibilities_default/'' @ str_int date @ fmt_0d 3 task_id
     @ ''/WSRTA'' @ str_int date @ fmt_0d 3 task_id @ ''_B'' @ fmt_0d 3 beam_nr @ ''.MS.tar''"

definition wcudata_2 :: "int \<Rightarrow> int \<Rightarrow> int \<Rightarrow> string" where
  "wcudata_2 date task_id beam_nr =
     ''/altaZone/home/apertif_main/wcudata/WSRTA'' @ str_int date @ fmt_0d 2 task_id
     @ ''/WSRTA'' @ str_int date @ fmt_0d 2 task_id @ ''_B'' @ fmt_0d 3 beam_nr @ ''.MS''"

definition wcudata_3 :: "int \<Rightarrow> int \<Rightarrow> int \<Rightarrow> string" where
  "wcudata_3 date task_id beam_nr =
     ''/altaZone/home/apertif_main/wcudata/WSRTA'' @ str_int date @ fmt_0d 3 task_id
     @ ''/WSRTA'' @ str_int date @ fmt_0d 3 task_id @ ''_B'' @ fmt_0d 3 beam_nr @ ''.MS''"

definition ingest_ms :: "int \<Rightarrow> int \<Rightarrow> int \<Rightarrow> string" where
  "ingest_ms date task_id beam_nr =
     ''/altaZone/ingest/apertif_main/visibilities_default/'' @ str_int date @ fmt_0d 3 task_id
     @ ''/WSRTA'' @ str_int date @ fmt_0d 3 task_id @ ''_B'' @ fmt_0d 3 beam_nr @ ''.MS''"

definition archive_ms :: "int \<Rightarrow> int \<Rightarrow> int \<Rightarrow> string" where
  "archive_ms date task_id beam_nr =
     ''/altaZone/archive/apertif_main/visibilities_default/'' @ str_int date @ fmt_0d 3 task_id
     @ ''/WSRTA'' @ str_int date @ fmt_0d 3 task_id @ ''_B'' @ fmt_0d 3 beam_nr @ ''.MS''"

text \<open>
  The probe of the staged tarball comes first and is made whatever the date (lines 75 to
  77); the chain of tests follows (lines 79 to 88).  The composite key of line 83 is read
  back from text with \<open>int(...)\<close>, which can raise.
\<close>

definition get_alta_dir ::
  "'w env \<Rightarrow> int \<Rightarrow> int \<Rightarrow> int \<Rightarrow> bool \<Rightarrow> 'w \<Rightarrow> (error + string) \<times> 'w" where
  "get_alta_dir env date task_id beam_nr alta_exception w =
     (let altadir = stage_tar date task_id beam_nr;
          cmd = ''ils '' @ altadir
      in case subprocess_call env (split_ws cmd) w of
           (None, w') \<Rightarrow> (Inl OSError, w')
         | (Some testcold, w') \<Rightarrow>
             (if date < 180216 then Inr (wcudata_2 date task_id beam_nr)
              else if date < 181003 \<or> alta_exception then Inr (wcudata_3 date task_id beam_nr)
              else (case py_int (str_int date @ pct_prec_d 3 task_id) of
                      Inl e \<Rightarrow> Inl e
                    | Inr key \<Rightarrow>
                        if key = 190326001 then Inr (ingest_ms date task_id beam_nr)
                        else if testcold = 0 then Inr (stage_tar date task_id beam_nr)
                        else Inr (archive_ms date task_id beam_nr)),
              w'))"

section \<open>\<open>getstatus_alta\<close>\<close>

definition getstatus_alta :: "'w env \<Rightarrow> int \<Rightarrow> int \<Rightarrow> int \<Rightarrow> 'w \<Rightarrow> (error + bool) \<times> 'w" where
  "getstatus_alta env date task_id beam w =
     (case get_alta_dir env date task_id beam False w of
        (Inl e, w1) \<Rightarrow> (Inl e, w1)
      | (Inr altadir, w1) \<Rightarrow>
          (case subprocess_call env (split_ws (''ils '' @ altadir)) w1 of
             (None, w2) \<Rightarrow> (Inl OSError, w2)
           | (Some retcode, w2) \<Rightarrow> (Inr (retcode = 0), w2)))"

section \<open>\<open>getdata_alta\<close>\<close>

subsection \<open>\<open>os.path.split\<close> and \<open>os.path.join\<close> (POSIX)\<close>

definition rstrip_slash :: "string \<Rightarrow> string" where
  "rstrip_slash s = rev (dropWhile (\<lambda>c. c = CHR ''/'') (rev s))"

definition path_split :: "string \<Rightarrow> string \<times> string" where
  "path_split p =
     (let tail = rev (takeWhile (\<lambda>c. c \<noteq> CHR ''/'') (rev p));
          head = take (length p - length tail) p
      in (if head \<noteq> [] \<and> head \<noteq> replicate (length head) CHR ''/''
          then rstrip_slash head else head,
          tail))"

definition path_join :: "string \<Rightarrow> string \<Rightarrow> string" where
  "path_join a b =
     (if take 1 b = ''/'' then b
      else if a = [] \<or> last a = CHR ''/'' then a @ b
      else a @ ''/'' @ b)"

subsection \<open>The arguments\<close>

text \<open>\<open>task_ids\<close> and \<open>beams\<close> are a list of integers or one integer (lines 127 to 130).\<close>

datatype ids = Single int | Several "int list"

fun as_list :: "ids \<Rightarrow> int list" where
  "as_list (Single i) = [i]"
| "as_list (Several xs) = xs"

text \<open>Lines 132 to 140, for one of the two directories.\<close>

definition with_slash :: "string \<Rightarrow> string" where
  "with_slash d =
     (let d = (if d = [] then ''.'' else d)
      in if last d \<noteq> CHR ''/'' then d @ ''/'' else d)"

subsection \<open>The commands\<close>

definition ms_name :: "int \<Rightarrow> int \<Rightarrow> int \<Rightarrow> string" where
  "ms_name date task_id beam_nr =
     ''WSRTA'' @ str_int date @ fmt_0d 3 task_id @ ''_B'' @ fmt_0d 3 beam_nr @ ''.MS''"

text \<open>The \<open>iget\<close> command of lines 154 to 156; lines 162 to 164 pass another last word.\<close>

definition iget_cmd :: "string \<Rightarrow> int \<Rightarrow> int \<Rightarrow> int \<Rightarrow> string \<Rightarrow> string \<Rightarrow> string" where
  "iget_cmd tmpdir date task_id beam_nr alta_dir dest =
     ''iget -rfPIT -X '' @ tmpdir @ ''WSRTA'' @ str_int date @ fmt_0d 3 task_id @ ''_B''
     @ fmt_0d 3 beam_nr @ ''-icat.irods-status --lfrestart '' @ tmpdir @ ''WSRTA''
     @ str_int date @ fmt_0d 3 task_id @ ''_B'' @ fmt_0d 3 beam_nr
     @ ''-icat.lf-irods-status --retries 5 '' @ alta_dir @ '' '' @ dest"

definition verify_log :: "string \<Rightarrow> int \<Rightarrow> int \<Rightarrow> string" where
  "verify_log tmpdir date task_id =
     tmpdir @ ''transfer_WSRTA'' @ str_int date @ fmt_0d 3 task_id @ ''_to_alta_verify.log''"

subsection \<open>The transfer loop (lines 145 to 181)\<close>

text \<open>
  The body of the inner loop for one beam and one task id.  \<open>targetdir\<close> is a local variable
  of \<open>getdata_alta\<close> that the tarball branch assigns to (line 161), so the body takes its
  value and returns the new one.
\<close>

definition fetch_one ::
  "'w env \<Rightarrow> int \<Rightarrow> string \<Rightarrow> bool \<Rightarrow> int \<Rightarrow> int \<Rightarrow> string \<Rightarrow> 'w \<Rightarrow> (error + string) \<times> 'w" where
  "fetch_one env date tmpdir alta_exception beam_nr task_id targetdir w =
     (case get_alta_dir env date task_id beam_nr alta_exception w of
        (Inl e, w1) \<Rightarrow> (Inl e, w1)
      | (Inr alta_dir, w1) \<Rightarrow>
          if last_chars 2 alta_dir = ''MS'' then
            (case shell env (iget_cmd tmpdir date task_id beam_nr alta_dir targetdir) w1 of
               (rc, w2) \<Rightarrow>
                 if rc = 0 then (Inr targetdir, w2) else (Inl (CalledProcessError rc), w2))
          else if last_chars 3 alta_dir = ''tar'' then
            (let targetdir = butlast targetdir
             in case shell env
                       (iget_cmd tmpdir date task_id beam_nr alta_dir (targetdir @ ''.tar'')) w1 of
                  (rc, w2) \<Rightarrow>
                    if rc = 0 then
                      (let head = fst (path_split targetdir);
                           tarcmd = ''tar -xf '' @ targetdir @ ''.tar -C '' @ head
                       in case shell env tarcmd w2 of
                            (_, w3) \<Rightarrow>
                              (let head = fst (path_split targetdir)
                               in case os_rename env
                                         (path_join head (ms_name date task_id beam_nr))
                                         targetdir w3 of
                                    (False, w4) \<Rightarrow> (Inl OSError, w4)
                                  | (True, w4) \<Rightarrow>
                                      (case os_remove env (targetdir @ ''.tar'') w4 of
                                         (False, w5) \<Rightarrow> (Inl OSError, w5)
                                       | (True, w5) \<Rightarrow> (Inr targetdir, w5))))
                    else (Inl (CalledProcessError rc), w2))
          else (Inr targetdir, w1))"

fun fetch_tasks ::
  "'w env \<Rightarrow> int \<Rightarrow> string \<Rightarrow> bool \<Rightarrow> int \<Rightarrow> int list \<Rightarrow> string \<Rightarrow> 'w \<Rightarrow> (error + string) \<times> 'w" where
  "fetch_tasks env date tmpdir alta_exception beam_nr [] targetdir w = (Inr targetdir, w)"
| "fetch_tasks env date tmpdir alta_exception beam_nr (task_id # rest) targetdir w =
     (case fetch_one env date tmpdir alta_exception beam_nr task_id targetdir w of
        (Inl e, w') \<Rightarrow> (Inl e, w')
      | (Inr targetdir', w') \<Rightarrow>
          fetch_tasks env date tmpdir alta_exception beam_nr rest targetdir' w')"

fun fetch_beams ::
  "'w env \<Rightarrow> int \<Rightarrow> string \<Rightarrow> bool \<Rightarrow> int list \<Rightarrow> int list \<Rightarrow> string \<Rightarrow> 'w \<Rightarrow> (error + string) \<times> 'w" where
  "fetch_beams env date tmpdir alta_exception task_ids [] targetdir w = (Inr targetdir, w)"
| "fetch_beams env date tmpdir alta_exception task_ids (beam_nr # rest) targetdir w =
     (case fetch_tasks env date tmpdir alta_exception beam_nr task_ids targetdir w of
        (Inl e, w') \<Rightarrow> (Inl e, w')
      | (Inr targetdir', w') \<Rightarrow>
          fetch_beams env date tmpdir alta_exception task_ids rest targetdir' w')"

subsection \<open>The verification pass (lines 187 to 218)\<close>

text \<open>
  Line 197 assigns a string that still holds the replacement fields; line 200 formats the
  command only once, so the fields reach the command as they are.
\<close>

definition verify_one ::
  "'w env \<Rightarrow> int \<Rightarrow> string \<Rightarrow> bool \<Rightarrow> string \<Rightarrow> int \<Rightarrow> int \<Rightarrow> 'w \<Rightarrow> (error + unit) \<times> 'w" where
  "verify_one env date tmpdir alta_exception targetdir beam_nr task_id w =
     (case get_alta_dir env date task_id beam_nr alta_exception w of
        (Inl e, w1) \<Rightarrow> (Inl e, w1)
      | (Inr alta_dir, w1) \<Rightarrow>
          (let local_dir = (if targetdir = ''.''
                            then ''{targetdir}WSRTA{date}{task_id:03d}_B{beam_nr:03d}.MS''
                            else targetdir);
               cmd = ''irsync -srl i:'' @ alta_dir @ '' '' @ local_dir @ '' >> ''
                     @ verify_log tmpdir date task_id
           in case shell env cmd w1 of
                (rc, w2) \<Rightarrow>
                  if rc = 0 then (Inr (), w2) else (Inl (CalledProcessError rc), w2)))"

fun verify_tasks ::
  "'w env \<Rightarrow> int \<Rightarrow> string \<Rightarrow> bool \<Rightarrow> string \<Rightarrow> int \<Rightarrow> int list \<Rightarrow> 'w \<Rightarrow> (error + unit) \<times> 'w" where
  "verify_tasks env date tmpdir alta_exception targetdir beam_nr [] w = (Inr (), w)"
| "verify_tasks env date tmpdir alta_exception targetdir beam_nr (task_id # rest) w =
     (case verify_one env date tmpdir alta_exception targetdir beam_nr task_id w of
        (Inl e, w') \<Rightarrow> (Inl e, w')
      | (Inr _, w') \<Rightarrow> verify_tasks env date tmpdir alta_exception targetdir beam_nr rest w')"

fun verify_beams ::
  "'w env \<Rightarrow> int \<Rightarrow> string \<Rightarrow> bool \<Rightarrow> string \<Rightarrow> int list \<Rightarrow> int list \<Rightarrow> 'w \<Rightarrow> (error + unit) \<times> 'w" where
  "verify_beams env date tmpdir alta_exception targetdir task_ids [] w = (Inr (), w)"
| "verify_beams env date tmpdir alta_exception targetdir task_ids (beam_nr # rest) w =
     (case verify_tasks env date tmpdir alta_exception targetdir beam_nr task_ids w of
        (Inl e, w') \<Rightarrow> (Inl e, w')
      | (Inr _, w') \<Rightarrow> verify_beams env date tmpdir alta_exception targetdir task_ids rest w')"

text \<open>
  The count of failed files per task id (lines 211 to 218): \<open>output.read().split()[0]\<close>
  raises \<open>IndexError\<close> when the command printed nothing but whitespace.
\<close>

fun count_failed :: "'w env \<Rightarrow> int \<Rightarrow> string \<Rightarrow> int list \<Rightarrow> 'w \<Rightarrow> (error + unit) \<times> 'w" where
  "count_failed env date tmpdir [] w = (Inr (), w)"
| "count_failed env date tmpdir (task_id # rest) w =
     (case popen_read env (''grep N '' @ verify_log tmpdir date task_id @ '' | wc -l'') w of
        (output, w') \<Rightarrow>
          (case split_ws output of
             [] \<Rightarrow> (Inl IndexError, w')
           | n_failed_files # _ \<Rightarrow> count_failed env date tmpdir rest w'))"

subsection \<open>The function\<close>

definition getdata_alta ::
  "'w env \<Rightarrow> int \<Rightarrow> ids \<Rightarrow> ids \<Rightarrow> string \<Rightarrow> string \<Rightarrow> bool \<Rightarrow> bool \<Rightarrow> 'w \<Rightarrow> (error + unit) \<times> 'w" where
  "getdata_alta env date task_ids beams targetdir tmpdir alta_exception check_with_rsync w =
     (let task_ids = as_list task_ids;
          beams = as_list beams;
          tmpdir = with_slash tmpdir;
          targetdir = with_slash targetdir
      in case fetch_beams env date tmpdir alta_exception task_ids beams targetdir w of
           (Inl e, w1) \<Rightarrow> (Inl e, w1)
         | (Inr targetdir, w1) \<Rightarrow>
             (case shell env (''rm -rf '' @ tmpdir @ ''*irods-status'') w1 of
                (_, w2) \<Rightarrow>
                  if check_with_rsync then
                    (case verify_beams env date tmpdir alta_exception targetdir task_ids beams w2 of
                       (Inl e, w3) \<Rightarrow> (Inl e, w3)
                     | (Inr _, w3) \<Rightarrow>
                         (case popen_read env ''hostname'' w3 of
                            (hostname, w4) \<Rightarrow> count_failed env date tmpdir task_ids w4))
                  else (Inr (), w2)))"

section \<open>Auxiliary notions for the proofs\<close>

text \<open>One step of reading a decimal numeral, and strings free of whitespace.\<close>

definition dec_step :: "nat \<Rightarrow> char \<Rightarrow> nat" where
  "dec_step a c = 10 * a + digit_val c"

definition no_space :: "string \<Rightarrow> bool" where
  "no_space s = list_all (\<lambda>c. \<not> is_space c) s"

text \<open>
  Well-formed specifications, to state what \<open>parse_list\<close> does on all of them: a part is a
  bare string of decimal digits or two such strings around a hyphen, and a specification is
  its parts joined by commas.  \<open>dec\<close> is the integer a digit string denotes, \<open>expand\<close> the
  integers a part stands for, and \<open>refused\<close> the test of line 42, on the strings.
\<close>

definition digit_string :: "string \<Rightarrow> bool" where
  "digit_string s = (s \<noteq> [] \<and> list_all is_digit s)"

definition dec :: "string \<Rightarrow> int" where
  "dec s = int (foldl dec_step 0 s)"

datatype part = Bare string | Range string string

fun render :: "part \<Rightarrow> string" where
  "render (Bare a) = a"
| "render (Range a b) = a @ ''-'' @ b"

fun well_formed :: "part \<Rightarrow> bool" where
  "well_formed (Bare a) = digit_string a"
| "well_formed (Range a b) = (digit_string a \<and> digit_string b)"

fun expand :: "part \<Rightarrow> int list" where
  "expand (Bare a) = [dec a]"
| "expand (Range a b) = [dec a..dec b]"

fun refused :: "part \<Rightarrow> bool" where
  "refused (Bare a) = False"
| "refused (Range a b) = str_less b a"

fun join_with :: "char \<Rightarrow> string list \<Rightarrow> string" where
  "join_with sep [] = []"
| "join_with sep [p] = p"
| "join_with sep (p # q # qs) = p @ sep # join_with sep (q # qs)"

fun same_width :: "part \<Rightarrow> bool" where
  "same_width (Bare a) = True"
| "same_width (Range a b) = (length a = length b)"

fun end_below_begin :: "part \<Rightarrow> bool" where
  "end_below_begin (Bare a) = False"
| "end_below_begin (Range a b) = (dec b < dec a)"

section \<open>Properties of the conversions\<close>

subsection \<open>Digits\<close>

lemma replicate_numeral_unfold: "replicate (numeral v) x = x # replicate (numeral v - 1) x"
  by (simp add: numeral_eq_Suc)

lemma digit_char_props:
  assumes "d < 10"
  shows "is_digit (digit_char d)" and "digit_val (digit_char d) = d"
proof -
  from assms have "d = 0 \<or> d = 1 \<or> d = 2 \<or> d = 3 \<or> d = 4 \<or> d = 5 \<or> d = 6 \<or> d = 7 \<or> d = 8 \<or> d = 9"
    by arith
  then show "is_digit (digit_char d)" and "digit_val (digit_char d) = d"
    by (auto simp: is_digit_def digit_char_def digit_val_def)
qed

lemma digits_all_digit: "list_all is_digit (digits n)"
proof (induction n rule: digits.induct)
  case (1 n)
  show ?case
  proof (cases "n < 10")
    case True
    then show ?thesis by (simp add: digits.simps [of n] digit_char_props)
  next
    case False
    with 1 show ?thesis by (simp add: digits.simps [of n] digit_char_props)
  qed
qed

lemma digits_nonempty: "digits n \<noteq> []"
  by (simp add: digits.simps [of n])

lemma is_digit_not_space: "is_digit c \<Longrightarrow> \<not> is_space c"
  by (auto simp: is_digit_def is_space_def)

lemma is_digit_not_sign: "is_digit c \<Longrightarrow> c \<noteq> CHR ''-'' \<and> c \<noteq> CHR ''+''"
  by (auto simp: is_digit_def)

lemma more_digits_step:
  "is_digit c \<Longrightarrow> more_digits acc (c # cs) = more_digits (dec_step acc c) cs"
  by (cases cs) (simp_all add: dec_step_def)

lemma more_digits_append:
  "list_all is_digit ds \<Longrightarrow> more_digits acc (ds @ es) = more_digits (foldl dec_step acc ds) es"
  by (induction ds arbitrary: acc) (simp_all add: more_digits_step)

lemma foldl_dec_shift: "foldl dec_step acc ds = acc * 10 ^ length ds + foldl dec_step 0 ds"
proof (induction ds rule: rev_induct)
  case Nil
  show ?case by simp
next
  case (snoc x xs)
  then show ?case by (simp add: dec_step_def algebra_simps)
qed

lemma dec_digits: "foldl dec_step 0 (digits n) = n"
proof (induction n rule: digits.induct)
  case (1 n)
  show ?case
  proof (cases "n < 10")
    case True
    then show ?thesis by (simp add: digits.simps [of n] dec_step_def digit_char_props)
  next
    case False
    with 1 show ?thesis by (simp add: digits.simps [of n] dec_step_def digit_char_props)
  qed
qed

lemma dec_zeros: "foldl dec_step 0 (replicate k CHR ''0'' @ s) = foldl dec_step 0 s"
  by (induction k) (simp_all add: dec_step_def digit_val_def)

lemma digits_bound: "n < 10 ^ length (digits n)"
proof (induction n rule: digits.induct)
  case (1 n)
  show ?case
  proof (cases "n < 10")
    case True
    then show ?thesis by (simp add: digits.simps [of n])
  next
    case False
    with 1 have "n div 10 < 10 ^ length (digits (n div 10))" by simp
    then have "n < 10 * 10 ^ length (digits (n div 10))" by arith
    with False show ?thesis by (simp add: digits.simps [of n])
  qed
qed

lemma dropWhile_none: "list_all (\<lambda>x. \<not> P x) xs \<Longrightarrow> dropWhile P xs = xs"
  by (cases xs) simp_all

lemma strip_no_space: "no_space s \<Longrightarrow> strip s = s"
  by (simp add: strip_def no_space_def dropWhile_none)

lemma no_space_digits: "list_all is_digit s \<Longrightarrow> no_space s"
  by (induction s) (simp_all add: no_space_def is_digit_not_space)

lemma py_int_digit_string:
  assumes "list_all is_digit s" and "s \<noteq> []"
  shows "py_int s = Inr (int (foldl dec_step 0 s))"
proof -
  from assms obtain c cs where s: "s = c # cs" by (cases s) auto
  with assms have c: "is_digit c" and cs: "list_all is_digit cs" by simp_all
  have "digits_value s = Some (foldl dec_step 0 s)"
    using c more_digits_append [OF cs, of "digit_val c" "[]"]
    by (simp add: s dec_step_def)
  moreover have "strip s = s"
    using assms by (simp add: strip_no_space no_space_digits)
  ultimately show ?thesis
    using is_digit_not_sign [OF c] by (simp add: py_int_def s)
qed

lemma py_int_digits_then_minus:
  assumes "list_all is_digit ds" and "ds \<noteq> []" and "no_space rest"
  shows "py_int (ds @ CHR ''-'' # rest) = Inl (ValueError (InvalidLiteral (ds @ CHR ''-'' # rest)))"
proof -
  from assms obtain c cs where ds: "ds = c # cs" by (cases ds) auto
  with assms have c: "is_digit c" and cs: "list_all is_digit cs" by simp_all
  have minus: "more_digits a (CHR ''-'' # rest) = None" for a
    by (cases rest) (simp_all add: is_digit_def)
  have "digits_value (ds @ CHR ''-'' # rest) = None"
    using c more_digits_append [OF cs, of "digit_val c" "CHR ''-'' # rest"]
    by (simp add: ds minus)
  moreover have "no_space (ds @ CHR ''-'' # rest)"
    using assms no_space_digits [OF assms(1)] by (simp add: no_space_def is_space_def)
  then have "strip (ds @ CHR ''-'' # rest) = ds @ CHR ''-'' # rest"
    by (rule strip_no_space)
  ultimately show ?thesis
    using is_digit_not_sign [OF c] by (simp add: py_int_def ds)
qed

lemma length_zpad: "length (zpad w s) = max w (length s)"
  by (simp add: zpad_def)

lemma list_all_replicate: "P x \<Longrightarrow> list_all P (replicate n x)"
  by (induction n) simp_all

lemma is_digit_zero: "is_digit CHR ''0''"
  by (simp add: is_digit_def)

lemma zpad_all_digit: "list_all is_digit s \<Longrightarrow> list_all is_digit (zpad w s)"
  by (simp add: zpad_def list_all_replicate is_digit_zero)

lemma dec_zpad: "foldl dec_step 0 (zpad w s) = foldl dec_step 0 s"
  unfolding zpad_def by (rule dec_zeros)

lemma key_arith:
  fixes date task_id :: int
  assumes "181003 \<le> date" and "0 \<le> task_id" and "task_id < 1000"
  shows "(date * 1000 + task_id = 190326001) = (date = 190326 \<and> task_id = 1)"
proof
  assume eq: "date * 1000 + task_id = 190326001"
  have "\<not> date \<le> 190325" using eq assms by linarith
  moreover have "\<not> 190327 \<le> date" using eq assms by linarith
  ultimately have d: "date = 190326" by linarith
  with eq show "date = 190326 \<and> task_id = 1" by simp
next
  assume "date = 190326 \<and> task_id = 1"
  then show "date * 1000 + task_id = 190326001" by simp
qed

text \<open>The composite key of line 83 for a date and task id that are not negative.\<close>

lemma composite_key_value:
  assumes "0 \<le> date" and "0 \<le> task_id"
  shows "py_int (str_int date @ pct_prec_d 3 task_id) =
         Inr (date * 10 ^ max 3 (length (digits (nat task_id))) + task_id)"
proof -
  let ?d = "digits (nat date)" and ?t = "zpad 3 (digits (nat task_id))"
  have all: "list_all is_digit (?d @ ?t)"
    by (simp add: digits_all_digit zpad_all_digit)
  have ne: "?d @ ?t \<noteq> []"
    by (simp add: digits_nonempty)
  have "foldl dec_step 0 (?d @ ?t) = foldl dec_step (nat date) ?t"
    by (simp add: dec_digits)
  also have "\<dots> = nat date * 10 ^ length ?t + foldl dec_step 0 ?t"
    by (rule foldl_dec_shift)
  also have "\<dots> = nat date * 10 ^ max 3 (length (digits (nat task_id))) + nat task_id"
    by (simp only: dec_zpad dec_digits length_zpad)
  finally have "foldl dec_step 0 (?d @ ?t) =
      nat date * 10 ^ max 3 (length (digits (nat task_id))) + nat task_id" .
  with py_int_digit_string [OF all ne] assms show ?thesis
    by (simp add: str_int_def pct_prec_d_def)
qed

lemma composite_key_exception:
  assumes "181003 \<le> date" and "0 \<le> task_id"
  shows "(py_int (str_int date @ pct_prec_d 3 task_id) = Inr 190326001) = (date = 190326 \<and> task_id = 1)"
proof -
  let ?L = "length (digits (nat task_id))"
  have key: "py_int (str_int date @ pct_prec_d 3 task_id) = Inr (date * 10 ^ max 3 ?L + task_id)"
    using assms by (intro composite_key_value) simp_all
  have bound: "task_id < 10 ^ ?L"
  proof -
    have "nat task_id < 10 ^ ?L" by (rule digits_bound)
    then have "int (nat task_id) < int (10 ^ ?L)" by (simp only: of_nat_less_iff)
    with assms show ?thesis by simp
  qed
  show ?thesis
  proof (cases "?L \<le> 3")
    case True
    then have m: "max 3 ?L = 3" by simp
    have "(10::int) ^ ?L \<le> 10 ^ 3" using True by (intro power_increasing) simp_all
    with bound have "task_id < 1000" by simp
    with assms have "(date * 1000 + task_id = 190326001) = (date = 190326 \<and> task_id = 1)"
      by (rule key_arith)
    then show ?thesis unfolding key m by simp
  next
    case False
    then have m: "max 3 ?L = ?L" and "4 \<le> ?L" by simp_all
    then have "(10::int) ^ 4 \<le> 10 ^ ?L" by (intro power_increasing) simp_all
    then have "181003 * (10::int) ^ 4 \<le> date * 10 ^ ?L"
      using assms by (intro mult_mono) simp_all
    then have "1810030000 \<le> date * 10 ^ ?L" by simp
    with assms have ne: "date * 10 ^ ?L + task_id \<noteq> 190326001" by linarith
    have "task_id \<noteq> 1"
    proof
      assume "task_id = 1"
      then have "?L = 1" by (simp add: digits.simps [of "Suc 0"])
      with False show False by simp
    qed
    with ne show ?thesis unfolding key m by simp
  qed
qed

lemma composite_key_negative_task:
  assumes "0 \<le> date" and "task_id < 0"
  shows "py_int (str_int date @ pct_prec_d 3 task_id) =
         Inl (ValueError (InvalidLiteral (str_int date @ pct_prec_d 3 task_id)))"
proof -
  have "no_space (zpad 3 (digits (nat (- task_id))))"
    by (intro no_space_digits zpad_all_digit digits_all_digit)
  with assms show ?thesis
    by (simp add: str_int_def pct_prec_d_def py_int_digits_then_minus digits_all_digit digits_nonempty)
qed

subsection \<open>The probe command\<close>

lemma no_space_append: "no_space (a @ b) = (no_space a \<and> no_space b)"
  by (simp add: no_space_def)

lemma no_space_Cons: "no_space (c # s) = (\<not> is_space c \<and> no_space s)"
  by (simp add: no_space_def)

lemma no_space_Nil: "no_space []"
  by (simp add: no_space_def)

lemma no_space_str_int: "no_space (str_int i)"
  by (simp add: str_int_def no_space_Cons is_space_def no_space_digits digits_all_digit)

lemma no_space_fmt_0d: "no_space (fmt_0d w i)"
  by (simp add: fmt_0d_def no_space_Cons is_space_def no_space_digits digits_all_digit zpad_all_digit)

lemma no_space_stage_tar: "no_space (stage_tar date task_id beam_nr)"
  by (simp add: stage_tar_def no_space_append no_space_Cons no_space_Nil no_space_str_int
      no_space_fmt_0d is_space_def)

lemma split_ws_acc_no_space:
  "no_space s \<Longrightarrow> split_ws_acc cur s = (if cur @ s = [] then [] else [cur @ s])"
  by (induction s arbitrary: cur) (simp_all add: no_space_Cons)

lemma split_ws_ils:
  assumes "no_space p" and "p \<noteq> []"
  shows "split_ws (''ils '' @ p) = [''ils'', p]"
  using assms by (simp add: split_ws_def is_space_def split_ws_acc_no_space)

lemma stage_tar_nonempty: "stage_tar date task_id beam_nr \<noteq> []"
  by (simp add: stage_tar_def)

lemma probe_argv: "split_ws (''ils '' @ stage_tar date task_id beam_nr) = [''ils'', stage_tar date task_id beam_nr]"
  by (rule split_ws_ils [OF no_space_stage_tar stage_tar_nonempty])

subsection \<open>The ends of the paths\<close>

lemma last_chars_append: "n \<le> length ys \<Longrightarrow> last_chars n (xs @ ys) = last_chars n ys"
  by (simp add: last_chars_def)

lemma stage_tar_suffix: "last_chars 2 (stage_tar d t b) = ''ar'' \<and> last_chars 3 (stage_tar d t b) = ''tar''"
proof -
  have "\<exists>p. stage_tar d t b = p @ ''.MS.tar''"
    by (simp add: stage_tar_def flip: append_assoc)
  then obtain p where "stage_tar d t b = p @ ''.MS.tar''" ..
  then show ?thesis by (simp add: last_chars_append) (simp add: last_chars_def)
qed

lemma archive_ms_suffix: "last_chars 2 (archive_ms d t b) = ''MS''"
proof -
  have "\<exists>p. archive_ms d t b = p @ ''.MS''"
    by (simp add: archive_ms_def flip: append_assoc)
  then obtain p where "archive_ms d t b = p @ ''.MS''" ..
  then show ?thesis by (simp add: last_chars_append) (simp add: last_chars_def)
qed

text \<open>The rules that evaluate the conversions on numerals.\<close>

lemmas py_eval =
  str_int_def fmt_0d_def pct_prec_d_def zpad_def digits.simps digit_char_def
  replicate_numeral_unfold last_chars_def

lemma wcudata_2_suffix: "last_chars 2 (wcudata_2 d t b) = ''MS''"
proof -
  have "\<exists>p. wcudata_2 d t b = p @ ''.MS''"
    by (simp add: wcudata_2_def flip: append_assoc)
  then obtain p where "wcudata_2 d t b = p @ ''.MS''" ..
  then show ?thesis by (simp add: last_chars_append) (simp add: last_chars_def)
qed

lemma wcudata_3_suffix: "last_chars 2 (wcudata_3 d t b) = ''MS''"
proof -
  have "\<exists>p. wcudata_3 d t b = p @ ''.MS''"
    by (simp add: wcudata_3_def flip: append_assoc)
  then obtain p where "wcudata_3 d t b = p @ ''.MS''" ..
  then show ?thesis by (simp add: last_chars_append) (simp add: last_chars_def)
qed

lemma ingest_ms_suffix: "last_chars 2 (ingest_ms d t b) = ''MS''"
proof -
  have "\<exists>p. ingest_ms d t b = p @ ''.MS''"
    by (simp add: ingest_ms_def flip: append_assoc)
  then obtain p where "ingest_ms d t b = p @ ''.MS''" ..
  then show ?thesis by (simp add: last_chars_append) (simp add: last_chars_def)
qed

lemma ingest_ms_distinct:
  "wcudata_2 d t b \<noteq> ingest_ms d' t' b'"
  "wcudata_3 d t b \<noteq> ingest_ms d' t' b'"
  "stage_tar d t b \<noteq> ingest_ms d' t' b'"
  "archive_ms d t b \<noteq> ingest_ms d' t' b'"
  by (simp_all add: wcudata_2_def wcudata_3_def stage_tar_def archive_ms_def ingest_ms_def)

text \<open>What \<open>get_alta_dir\<close> does once the probe has answered.\<close>

lemma get_alta_dir_probed:
  assumes "subprocess_call env [''ils'', stage_tar date task_id beam_nr] w = (Some testcold, w')"
  shows "get_alta_dir env date task_id beam_nr alta_exception w =
     (if date < 180216 then Inr (wcudata_2 date task_id beam_nr)
      else if date < 181003 \<or> alta_exception then Inr (wcudata_3 date task_id beam_nr)
      else (case py_int (str_int date @ pct_prec_d 3 task_id) of
              Inl e \<Rightarrow> Inl e
            | Inr key \<Rightarrow>
                if key = 190326001 then Inr (ingest_ms date task_id beam_nr)
                else if testcold = 0 then Inr (stage_tar date task_id beam_nr)
                else Inr (archive_ms date task_id beam_nr)),
      w')"
  unfolding get_alta_dir_def Let_def probe_argv using assms by simp

lemma get_alta_dir_not_started:
  assumes "subprocess_call env [''ils'', stage_tar date task_id beam_nr] w = (None, w')"
  shows "get_alta_dir env date task_id beam_nr alta_exception w = (Inl OSError, w')"
  unfolding get_alta_dir_def Let_def probe_argv using assms by simp

section \<open>The location policy of \<open>get_alta_dir\<close>\<close>

text \<open>
  In the theorems below the staged-tier probe has run and the listing command has exited
  with the status \<open>testcold\<close>; the path is a tarball for \<open>getdata_alta\<close> when its last
  three characters are \<open>tar\<close> and a directory when its last two are \<open>MS\<close> (lines 153 and
  160).
\<close>

text \<open>
  Claim C5.  For every date before 180216 \<open>get_alta_dir\<close> returns the online directory
  with the task id padded to two digits,
  \<open>/altaZone/home/apertif_main/wcudata/WSRTA<date><task:02d>/WSRTA<date><task:02d>_B<beam:03d>.MS\<close>,
  whatever the exit status of the probe and whatever \<open>alta_exception\<close> is; the path ends in
  \<open>MS\<close>, so it is handled as a directory.
\<close>

theorem resolve_before_180216:
  assumes "date < 180216"
    and "subprocess_call env [''ils'', stage_tar date task_id beam_nr] w = (Some testcold, w')"
  shows "get_alta_dir env date task_id beam_nr alta_exception w =
           (Inr (''/altaZone/home/apertif_main/wcudata/WSRTA'' @ str_int date @ fmt_0d 2 task_id
                 @ ''/WSRTA'' @ str_int date @ fmt_0d 2 task_id @ ''_B'' @ fmt_0d 3 beam_nr
                 @ ''.MS''), w')
         \<and> last_chars 2 (wcudata_2 date task_id beam_nr) = ''MS''"
  using assms by (simp add: get_alta_dir_probed wcudata_2_suffix) (simp add: wcudata_2_def)

text \<open>
  The doctest \<open>get_alta_dir(180201, 5, 35, False)\<close>, with the probe answering 0, and the
  same key with the flag set and the probe answering 1.
\<close>

theorem resolve_before_180216_witness:
  "(180201 :: int) < 180216
   \<and> get_alta_dir (recording (\<lambda>argv. Some 0)) 180201 5 35 False [] =
       (Inr ''/altaZone/home/apertif_main/wcudata/WSRTA18020105/WSRTA18020105_B035.MS'',
        [Call [''ils'', ''/altaZone/stage/apertif_main/visibilities_default/180201005/WSRTA180201005_B035.MS.tar'']])
   \<and> get_alta_dir (recording (\<lambda>argv. Some 1)) 180201 5 35 True [] =
       (Inr ''/altaZone/home/apertif_main/wcudata/WSRTA18020105/WSRTA18020105_B035.MS'',
        [Call [''ils'', ''/altaZone/stage/apertif_main/visibilities_default/180201005/WSRTA180201005_B035.MS.tar'']])"
proof -
  have d: "(180201 :: int) < 180216" by simp
  have p0: "subprocess_call (recording (\<lambda>argv. Some 0)) [''ils'', stage_tar 180201 5 35] [] =
      (Some 0, [Call [''ils'', stage_tar 180201 5 35]])"
    by (simp add: recording_def)
  have p1: "subprocess_call (recording (\<lambda>argv. Some 1)) [''ils'', stage_tar 180201 5 35] [] =
      (Some 1, [Call [''ils'', stage_tar 180201 5 35]])"
    by (simp add: recording_def)
  show ?thesis
    using resolve_before_180216 [OF d p0, of False] resolve_before_180216 [OF d p1, of True]
    by (simp add: stage_tar_def py_eval)
qed

text \<open>
  Claim C6.  For every date from 180216 on, when the date is before 181003 or
  \<open>alta_exception\<close> is set, \<open>get_alta_dir\<close> returns the online directory with the task id
  padded to three digits,
  \<open>/altaZone/home/apertif_main/wcudata/WSRTA<date><task:03d>/WSRTA<date><task:03d>_B<beam:03d>.MS\<close>,
  whatever the exit status of the probe; the path ends in \<open>MS\<close>, so it is handled as a
  directory.
\<close>

theorem resolve_three_digit_online:
  assumes "180216 \<le> date"
    and "date < 181003 \<or> alta_exception"
    and "subprocess_call env [''ils'', stage_tar date task_id beam_nr] w = (Some testcold, w')"
  shows "get_alta_dir env date task_id beam_nr alta_exception w =
           (Inr (''/altaZone/home/apertif_main/wcudata/WSRTA'' @ str_int date @ fmt_0d 3 task_id
                 @ ''/WSRTA'' @ str_int date @ fmt_0d 3 task_id @ ''_B'' @ fmt_0d 3 beam_nr
                 @ ''.MS''), w')
         \<and> last_chars 2 (wcudata_3 date task_id beam_nr) = ''MS''"
  using assms by (simp add: get_alta_dir_probed wcudata_3_suffix) (auto simp: wcudata_3_def)

text \<open>
  The doctest \<open>get_alta_dir(180321, 5, 35, False)\<close>, and a date after 181003 with the flag
  set.
\<close>

theorem resolve_three_digit_online_witness:
  "(180216 :: int) \<le> 180321 \<and> (180321 :: int) < 181003
   \<and> get_alta_dir (recording (\<lambda>argv. Some 0)) 180321 5 35 False [] =
       (Inr ''/altaZone/home/apertif_main/wcudata/WSRTA180321005/WSRTA180321005_B035.MS'',
        [Call [''ils'', ''/altaZone/stage/apertif_main/visibilities_default/180321005/WSRTA180321005_B035.MS.tar'']])
   \<and> get_alta_dir (recording (\<lambda>argv. Some 1)) 190326 1 7 True [] =
       (Inr ''/altaZone/home/apertif_main/wcudata/WSRTA190326001/WSRTA190326001_B007.MS'',
        [Call [''ils'', ''/altaZone/stage/apertif_main/visibilities_default/190326001/WSRTA190326001_B007.MS.tar'']])"
proof -
  have d0: "(180216 :: int) \<le> 180321" and c0: "(180321 :: int) < 181003 \<or> False" by simp_all
  have d1: "(180216 :: int) \<le> 190326" and c1: "(190326 :: int) < 181003 \<or> True" by simp_all
  have p0: "subprocess_call (recording (\<lambda>argv. Some 0)) [''ils'', stage_tar 180321 5 35] [] =
      (Some 0, [Call [''ils'', stage_tar 180321 5 35]])"
    by (simp add: recording_def)
  have p1: "subprocess_call (recording (\<lambda>argv. Some 1)) [''ils'', stage_tar 190326 1 7] [] =
      (Some 1, [Call [''ils'', stage_tar 190326 1 7]])"
    by (simp add: recording_def)
  show ?thesis
    using resolve_three_digit_online [OF d0 c0 p0] resolve_three_digit_online [OF d1 c1 p1]
    by (simp add: stage_tar_def py_eval)
qed

text \<open>
  Claim C1.  With \<open>alta_exception\<close> off, a date from 181003 on, a task id that is not
  negative and a key other than 190326/001, \<open>get_alta_dir\<close> returns the staged tarball
  \<open>/altaZone/stage/apertif_main/visibilities_default/<date><task:03d>/WSRTA<date><task:03d>_B<beam:03d>.MS.tar\<close>
  when the probe exited with status 0, and the cold-archive directory
  \<open>/altaZone/archive/apertif_main/visibilities_default/<date><task:03d>/WSRTA<date><task:03d>_B<beam:03d>.MS\<close>
  when it exited with any other status.  The result is a function of the date, the task id,
  the beam and of whether the status is 0.  The first path ends in \<open>tar\<close> and not in
  \<open>MS\<close> (a tarball for \<open>getdata_alta\<close>), the second in \<open>MS\<close> (a directory).
\<close>

theorem resolve_staged_or_archive:
  assumes "\<not> alta_exception" and "181003 \<le> date" and "0 \<le> task_id"
    and "\<not> (date = 190326 \<and> task_id = 1)"
    and "subprocess_call env [''ils'', stage_tar date task_id beam_nr] w = (Some testcold, w')"
  shows "get_alta_dir env date task_id beam_nr alta_exception w =
           (Inr (if testcold = 0
                 then ''/altaZone/stage/apertif_main/visibilities_default/'' @ str_int date
                      @ fmt_0d 3 task_id @ ''/WSRTA'' @ str_int date @ fmt_0d 3 task_id @ ''_B''
                      @ fmt_0d 3 beam_nr @ ''.MS.tar''
                 else ''/altaZone/archive/apertif_main/visibilities_default/'' @ str_int date
                      @ fmt_0d 3 task_id @ ''/WSRTA'' @ str_int date @ fmt_0d 3 task_id @ ''_B''
                      @ fmt_0d 3 beam_nr @ ''.MS''), w')
         \<and> last_chars 2 (stage_tar date task_id beam_nr) \<noteq> ''MS''
         \<and> last_chars 3 (stage_tar date task_id beam_nr) = ''tar''
         \<and> last_chars 2 (archive_ms date task_id beam_nr) = ''MS''"
proof -
  from assms have "0 \<le> date" by simp
  from composite_key_value [OF this \<open>0 \<le> task_id\<close>]
  obtain key where key: "py_int (str_int date @ pct_prec_d 3 task_id) = Inr key" by blast
  with composite_key_exception [OF \<open>181003 \<le> date\<close> \<open>0 \<le> task_id\<close>] assms(4)
  have "key \<noteq> 190326001" by auto
  with assms key show ?thesis
    by (simp add: get_alta_dir_probed stage_tar_suffix archive_ms_suffix)
       (simp add: stage_tar_def archive_ms_def)
qed

text \<open>
  The doctest \<open>get_alta_dir(181205, 5, 35, False)\<close> with the staged tarball absent, and
  the same call with the tarball present.
\<close>

theorem resolve_staged_or_archive_witness:
  "get_alta_dir (recording (\<lambda>argv. Some 1)) 181205 5 35 False [] =
       (Inr ''/altaZone/archive/apertif_main/visibilities_default/181205005/WSRTA181205005_B035.MS'',
        [Call [''ils'', ''/altaZone/stage/apertif_main/visibilities_default/181205005/WSRTA181205005_B035.MS.tar'']])
   \<and> get_alta_dir (recording (\<lambda>argv. Some 0)) 181205 5 35 False [] =
       (Inr ''/altaZone/stage/apertif_main/visibilities_default/181205005/WSRTA181205005_B035.MS.tar'',
        [Call [''ils'', ''/altaZone/stage/apertif_main/visibilities_default/181205005/WSRTA181205005_B035.MS.tar'']])"
proof -
  have h: "\<not> False" "(181003 :: int) \<le> 181205" "(0 :: int) \<le> 5"
    "\<not> ((181205 :: int) = 190326 \<and> (5 :: int) = 1)" by simp_all
  have p0: "subprocess_call (recording (\<lambda>argv. Some 0)) [''ils'', stage_tar 181205 5 35] [] =
      (Some 0, [Call [''ils'', stage_tar 181205 5 35]])"
    by (simp add: recording_def)
  have p1: "subprocess_call (recording (\<lambda>argv. Some 1)) [''ils'', stage_tar 181205 5 35] [] =
      (Some 1, [Call [''ils'', stage_tar 181205 5 35]])"
    by (simp add: recording_def)
  show ?thesis
    using resolve_staged_or_archive [OF h p0] resolve_staged_or_archive [OF h p1]
    by (simp add: stage_tar_def py_eval)
qed

text \<open>
  With the recording environment the result of \<open>get_alta_dir\<close> is given by the answer of
  \<open>ils\<close>, and the trace grows by the one call.
\<close>

lemma get_alta_dir_recording:
  "get_alta_dir (recording ils) date task_id beam_nr alta_exception tr =
     (case ils [''ils'', stage_tar date task_id beam_nr] of
        None \<Rightarrow> Inl OSError
      | Some testcold \<Rightarrow>
          if date < 180216 then Inr (wcudata_2 date task_id beam_nr)
          else if date < 181003 \<or> alta_exception then Inr (wcudata_3 date task_id beam_nr)
          else (case py_int (str_int date @ pct_prec_d 3 task_id) of
                  Inl e \<Rightarrow> Inl e
                | Inr key \<Rightarrow>
                    if key = 190326001 then Inr (ingest_ms date task_id beam_nr)
                    else if testcold = 0 then Inr (stage_tar date task_id beam_nr)
                    else Inr (archive_ms date task_id beam_nr)),
      tr @ [Call [''ils'', stage_tar date task_id beam_nr]])"
proof (cases "ils [''ils'', stage_tar date task_id beam_nr]")
  case None
  then have "subprocess_call (recording ils) [''ils'', stage_tar date task_id beam_nr] tr =
      (None, tr @ [Call [''ils'', stage_tar date task_id beam_nr]])"
    by (simp add: recording_def)
  from get_alta_dir_not_started [OF this] None show ?thesis by simp
next
  case (Some testcold)
  then have "subprocess_call (recording ils) [''ils'', stage_tar date task_id beam_nr] tr =
      (Some testcold, tr @ [Call [''ils'', stage_tar date task_id beam_nr]])"
    by (simp add: recording_def)
  from get_alta_dir_probed [OF this] Some show ?thesis by simp
qed

text \<open>
  Claim C2, as stated, fails on the code: for the key 190326/001 with \<open>alta_exception\<close>
  set, the test of line 81 comes before the test of the key in line 83, and the online
  directory is returned, not the ingest directory.
\<close>

theorem exception_key_flag_counterexample:
  "fst (get_alta_dir (recording (\<lambda>argv. Some 1)) 190326 1 35 True []) =
     Inr ''/altaZone/home/apertif_main/wcudata/WSRTA190326001/WSRTA190326001_B035.MS''
   \<and> fst (get_alta_dir (recording (\<lambda>argv. Some 1)) 190326 1 35 True []) \<noteq>
     Inr ''/altaZone/ingest/apertif_main/visibilities_default/190326001/WSRTA190326001_B035.MS''"
  by (simp add: get_alta_dir_recording wcudata_3_def py_eval)

text \<open>
  Claim C2, amended.  For every exit status of the probe, \<open>get_alta_dir\<close> returns the
  ingest directory
  \<open>/altaZone/ingest/apertif_main/visibilities_default/<date><task:03d>/WSRTA<date><task:03d>_B<beam:03d>.MS\<close>
  if and only if \<open>alta_exception\<close> is off and the date is 190326 and the task id is 1.
  So with the flag off the key 190326/001 gets the ingest path whether or not the staged
  tarball exists, no other key ever gets it, and with the flag on no key gets it.
\<close>

theorem ingest_iff_exception_key:
  assumes "subprocess_call env [''ils'', stage_tar date task_id beam_nr] w = (Some testcold, w')"
  shows "(fst (get_alta_dir env date task_id beam_nr alta_exception w) =
            Inr (''/altaZone/ingest/apertif_main/visibilities_default/'' @ str_int date
                 @ fmt_0d 3 task_id @ ''/WSRTA'' @ str_int date @ fmt_0d 3 task_id @ ''_B''
                 @ fmt_0d 3 beam_nr @ ''.MS''))
         = (\<not> alta_exception \<and> date = 190326 \<and> task_id = 1)"
proof -
  let ?ingest = "ingest_ms date task_id beam_nr"
  have goal: "(fst (get_alta_dir env date task_id beam_nr alta_exception w) = Inr ?ingest)
      = (\<not> alta_exception \<and> date = 190326 \<and> task_id = 1)"
  proof (cases "date < 181003 \<or> alta_exception")
    case True
    then show ?thesis
      by (auto simp: get_alta_dir_probed [OF assms] ingest_ms_distinct)
  next
    case False
    then have d: "181003 \<le> date" and x: "\<not> alta_exception" by simp_all
    show ?thesis
    proof (cases "task_id < 0")
      case True
      from d have "0 \<le> date" by simp
      from composite_key_negative_task [OF this True] True d x show ?thesis
        by (simp add: get_alta_dir_probed [OF assms])
    next
      case False
      then have t: "0 \<le> task_id" by simp
      from d have "0 \<le> date" by simp
      from composite_key_value [OF this t]
      obtain key where key: "py_int (str_int date @ pct_prec_d 3 task_id) = Inr key" by blast
      with composite_key_exception [OF d t]
      have "(key = 190326001) = (date = 190326 \<and> task_id = 1)" by simp
      with key d x show ?thesis
        by (simp add: get_alta_dir_probed [OF assms] ingest_ms_distinct)
    qed
  qed
  then show ?thesis by (simp add: ingest_ms_def)
qed

text \<open>
  The key 190326/001 with the flag off: the ingest path with the staged tarball present
  and with it absent.
\<close>

theorem ingest_iff_exception_key_witness:
  "fst (get_alta_dir (recording (\<lambda>argv. Some 0)) 190326 1 35 False []) =
     Inr ''/altaZone/ingest/apertif_main/visibilities_default/190326001/WSRTA190326001_B035.MS''
   \<and> fst (get_alta_dir (recording (\<lambda>argv. Some 1)) 190326 1 35 False []) =
     Inr ''/altaZone/ingest/apertif_main/visibilities_default/190326001/WSRTA190326001_B035.MS''"
proof -
  have p0: "subprocess_call (recording (\<lambda>argv. Some 0)) [''ils'', stage_tar 190326 1 35] [] =
      (Some 0, [Call [''ils'', stage_tar 190326 1 35]])"
    by (simp add: recording_def)
  have p1: "subprocess_call (recording (\<lambda>argv. Some 1)) [''ils'', stage_tar 190326 1 35] [] =
      (Some 1, [Call [''ils'', stage_tar 190326 1 35]])"
    by (simp add: recording_def)
  show ?thesis
    using ingest_iff_exception_key [OF p0, of False] ingest_iff_exception_key [OF p1, of False]
    by (simp add: py_eval)
qed

text \<open>
  Claim C7.  Every call of \<open>get_alta_dir\<close> runs the listing command exactly once, on the
  staged tarball path of its date, task id and beam, and does nothing else to the outside
  world: the world after the call is the world after that one \<open>subprocess.call\<close>.  This
  holds on every path through the function, also where the date decides the result, where
  the command cannot be started and where line 83 raises.  In the recording environment the
  trace grows by exactly that one call.
\<close>

theorem probe_exactly_once:
  "snd (get_alta_dir env date task_id beam_nr alta_exception w) =
     snd (subprocess_call env
            [''ils'', ''/altaZone/stage/apertif_main/visibilities_default/'' @ str_int date
                      @ fmt_0d 3 task_id @ ''/WSRTA'' @ str_int date @ fmt_0d 3 task_id @ ''_B''
                      @ fmt_0d 3 beam_nr @ ''.MS.tar''] w)
   \<and> snd (get_alta_dir (recording ils) date task_id beam_nr alta_exception tr) =
     tr @ [Call [''ils'', ''/altaZone/stage/apertif_main/visibilities_default/'' @ str_int date
                      @ fmt_0d 3 task_id @ ''/WSRTA'' @ str_int date @ fmt_0d 3 task_id @ ''_B''
                      @ fmt_0d 3 beam_nr @ ''.MS.tar'']]"
proof -
  have "snd (get_alta_dir env date task_id beam_nr alta_exception w) =
     snd (subprocess_call env [''ils'', stage_tar date task_id beam_nr] w)"
    unfolding get_alta_dir_def Let_def probe_argv
    by (simp split: prod.splits option.splits)
  moreover have "snd (get_alta_dir (recording ils) date task_id beam_nr alta_exception tr) =
     tr @ [Call [''ils'', stage_tar date task_id beam_nr]]"
    by (simp add: get_alta_dir_recording)
  ultimately show ?thesis by (simp add: stage_tar_def)
qed

text \<open>
  Claim C8, as stated, fails on the code.  The only thing \<open>get_alta_dir\<close> reads from the
  listing command is its exit status, and it only tests whether the status is 0 (line 85).
  A status of 1 and a status of 2 both select the cold-archive path, so whichever status the
  command uses to report a failure of its own (and not a missing path), that failure is
  treated as a missing staged tarball and no exception is raised.
\<close>

theorem nonzero_status_counterexample:
  "fst (get_alta_dir (recording (\<lambda>argv. Some 1)) 181205 5 35 False []) =
     Inr ''/altaZone/archive/apertif_main/visibilities_default/181205005/WSRTA181205005_B035.MS''
   \<and> fst (get_alta_dir (recording (\<lambda>argv. Some 2)) 181205 5 35 False []) =
     Inr ''/altaZone/archive/apertif_main/visibilities_default/181205005/WSRTA181205005_B035.MS''"
proof -
  have "py_int (str_int 181205 @ pct_prec_d 3 5) = Inr 181205005"
    by (simp add: composite_key_value digits.simps)
  then show ?thesis
    by (simp add: get_alta_dir_recording) (simp add: archive_ms_def py_eval)
qed

text \<open>
  Claim C8, amended.  When the listing command cannot be started, \<open>subprocess.call\<close>
  raises \<open>OSError\<close>, \<open>get_alta_dir\<close> raises it too and returns no path.  When the command
  runs, every exit status other than 0, whatever its cause, counts as the staged tarball
  being absent: with the flag off, a date from 181003 on, a task id that is not negative and
  a key other than 190326/001 the cold-archive directory is returned.
\<close>

theorem probe_outcomes:
  "(subprocess_call env [''ils'', stage_tar date task_id beam_nr] w = (None, w')
      \<longrightarrow> get_alta_dir env date task_id beam_nr alta_exception w = (Inl OSError, w'))
   \<and> (subprocess_call env [''ils'', stage_tar date task_id beam_nr] w = (Some testcold, w')
        \<and> testcold \<noteq> 0 \<and> \<not> alta_exception \<and> 181003 \<le> date \<and> 0 \<le> task_id
        \<and> \<not> (date = 190326 \<and> task_id = 1)
      \<longrightarrow> get_alta_dir env date task_id beam_nr alta_exception w =
           (Inr (''/altaZone/archive/apertif_main/visibilities_default/'' @ str_int date
                 @ fmt_0d 3 task_id @ ''/WSRTA'' @ str_int date @ fmt_0d 3 task_id @ ''_B''
                 @ fmt_0d 3 beam_nr @ ''.MS''), w'))"
proof (intro conjI impI)
  assume "subprocess_call env [''ils'', stage_tar date task_id beam_nr] w = (None, w')"
  then show "get_alta_dir env date task_id beam_nr alta_exception w = (Inl OSError, w')"
    by (rule get_alta_dir_not_started)
next
  assume a: "subprocess_call env [''ils'', stage_tar date task_id beam_nr] w = (Some testcold, w')
        \<and> testcold \<noteq> 0 \<and> \<not> alta_exception \<and> 181003 \<le> date \<and> 0 \<le> task_id
        \<and> \<not> (date = 190326 \<and> task_id = 1)"
  then have d: "181003 \<le> date" and t: "0 \<le> task_id" by simp_all
  from d have "0 \<le> date" by simp
  from composite_key_value [OF this t]
  obtain key where key: "py_int (str_int date @ pct_prec_d 3 task_id) = Inr key" by blast
  with composite_key_exception [OF d t] a have "key \<noteq> 190326001" by auto
  with a key show "get_alta_dir env date task_id beam_nr alta_exception w =
           (Inr (''/altaZone/archive/apertif_main/visibilities_default/'' @ str_int date
                 @ fmt_0d 3 task_id @ ''/WSRTA'' @ str_int date @ fmt_0d 3 task_id @ ''_B''
                 @ fmt_0d 3 beam_nr @ ''.MS''), w')"
    by (simp add: get_alta_dir_probed archive_ms_def)
qed

text \<open>
  The key 181205/005, beam 35: the command that cannot be started, and the command that
  exits with status 2.
\<close>

theorem probe_outcomes_witness:
  "get_alta_dir (recording (\<lambda>argv. None)) 181205 5 35 False [] =
     (Inl OSError,
      [Call [''ils'', ''/altaZone/stage/apertif_main/visibilities_default/181205005/WSRTA181205005_B035.MS.tar'']])
   \<and> get_alta_dir (recording (\<lambda>argv. Some 2)) 181205 5 35 False [] =
     (Inr ''/altaZone/archive/apertif_main/visibilities_default/181205005/WSRTA181205005_B035.MS'',
      [Call [''ils'', ''/altaZone/stage/apertif_main/visibilities_default/181205005/WSRTA181205005_B035.MS.tar'']])"
proof -
  have p0: "subprocess_call (recording (\<lambda>argv. None)) [''ils'', stage_tar 181205 5 35] [] =
      (None, [Call [''ils'', stage_tar 181205 5 35]])"
    by (simp add: recording_def)
  have p2: "subprocess_call (recording (\<lambda>argv. Some 2)) [''ils'', stage_tar 181205 5 35] [] =
      (Some 2, [Call [''ils'', stage_tar 181205 5 35]])"
    by (simp add: recording_def)
  show ?thesis
    using probe_outcomes [of "recording (\<lambda>argv. None)" 181205 5 35 "[]"
              "[Call [''ils'', stage_tar 181205 5 35]]" False 2]
          probe_outcomes [of "recording (\<lambda>argv. Some 2)" 181205 5 35 "[]"
              "[Call [''ils'', stage_tar 181205 5 35]]" False 2]
          p0 p2
    by (simp add: stage_tar_def py_eval)
qed

section \<open>The arguments of \<open>getdata_alta\<close>\<close>

text \<open>
  Claim C10.  \<open>getdata_alta\<close> takes one integer in place of a list for the task ids, for
  the beams or for both, and treats it as the list of that one integer: the result and the
  effect on the outside world are the same in every environment.
\<close>

theorem single_id_is_singleton_list:
  "getdata_alta env date (Single t) beams targetdir tmpdir alta_exception check_with_rsync w =
     getdata_alta env date (Several [t]) beams targetdir tmpdir alta_exception check_with_rsync w
   \<and> getdata_alta env date task_ids (Single b) targetdir tmpdir alta_exception check_with_rsync w =
     getdata_alta env date task_ids (Several [b]) targetdir tmpdir alta_exception check_with_rsync w
   \<and> getdata_alta env date (Single t) (Single b) targetdir tmpdir alta_exception check_with_rsync w =
     getdata_alta env date (Several [t]) (Several [b]) targetdir tmpdir alta_exception check_with_rsync w"
  by (simp add: getdata_alta_def)

section \<open>\<open>parse_list\<close> on well-formed specifications\<close>

subsection \<open>Splitting\<close>

lemma split_on_none: "sep \<notin> set p \<Longrightarrow> split_on sep p = [p]"
  by (induction p) auto

lemma split_on_first:
  "sep \<notin> set p \<Longrightarrow> split_on sep (p @ sep # rest) = p # split_on sep rest"
  by (induction p) auto

lemma split_on_join:
  assumes "ps \<noteq> []" and "list_all (\<lambda>p. sep \<notin> set p) ps"
  shows "split_on sep (join_with sep ps) = ps"
  using assms
proof (induction sep ps rule: join_with.induct)
  case (1 sep)
  then show ?case by simp
next
  case (2 sep p)
  then show ?case by (simp add: split_on_none)
next
  case (3 sep p q qs)
  then show ?case by (simp add: split_on_first)
qed

subsection \<open>One part\<close>

lemma digit_string_no_char:
  assumes "digit_string a" and "\<not> is_digit c"
  shows "c \<notin> set a"
  using assms by (auto simp: digit_string_def list_all_iff)

lemma py_int_digit_string': "digit_string a \<Longrightarrow> py_int a = Inr (dec a)"
  by (simp add: digit_string_def dec_def py_int_digit_string)

lemma parse_part_bare:
  assumes "digit_string a"
  shows "parse_part a = Inr [dec a]"
proof -
  have "CHR ''-'' \<notin> set a"
    using assms by (rule digit_string_no_char) (simp add: is_digit_def)
  with assms show ?thesis by (simp add: parse_part_def py_int_digit_string')
qed

lemma parse_part_range:
  assumes "digit_string a" and "digit_string b"
  shows "parse_part (a @ ''-'' @ b) =
     (if str_less b a then Inl (ValueError (EndSmallerThanBegin (a @ ''-'' @ b)))
      else Inr [dec a..dec b])"
proof -
  have minus: "\<not> is_digit CHR ''-''" by (simp add: is_digit_def)
  have a: "CHR ''-'' \<notin> set a" by (rule digit_string_no_char [OF assms(1) minus])
  have b: "CHR ''-'' \<notin> set b" by (rule digit_string_no_char [OF assms(2) minus])
  have "split_on CHR ''-'' (a @ ''-'' @ b) = [a, b]"
    using a b by (simp add: split_on_first split_on_none)
  with assms show ?thesis by (simp add: parse_part_def py_int_digit_string')
qed

lemma parse_part_render:
  "well_formed p \<Longrightarrow> parse_part (render p) =
     (if refused p then Inl (ValueError (EndSmallerThanBegin (render p))) else Inr (expand p))"
  by (cases p) (simp_all add: parse_part_bare parse_part_range del: append.simps)

subsection \<open>The whole specification\<close>

lemma parse_parts_render:
  "list_all well_formed ps \<Longrightarrow> parse_parts acc (map render ps) =
     (case List.find refused ps of
        None \<Rightarrow> Inr (acc @ concat (map expand ps))
      | Some p \<Rightarrow> Inl (ValueError (EndSmallerThanBegin (render p))))"
  by (induction ps arbitrary: acc) (simp_all add: parse_part_render split: option.splits)

lemma render_no_comma:
  assumes "well_formed p"
  shows "CHR '','' \<notin> set (render p)"
proof -
  have comma: "\<not> is_digit CHR '',''" by (simp add: is_digit_def)
  show ?thesis
  proof (cases p)
    case (Bare a)
    with assms digit_string_no_char [OF _ comma, of a] show ?thesis by simp
  next
    case (Range a b)
    with assms digit_string_no_char [OF _ comma, of a] digit_string_no_char [OF _ comma, of b]
    show ?thesis by simp
  qed
qed

text \<open>
  On a well-formed specification \<open>parse_list\<close> raises for the first part that line 42
  refuses, and returns the ranges and single integers in the order of the parts when it
  refuses none.
\<close>

lemma parse_list_well_formed:
  assumes "ps \<noteq> []" and "list_all well_formed ps"
  shows "parse_list (join_with CHR '','' (map render ps)) =
     (case List.find refused ps of
        None \<Rightarrow> Inr (concat (map expand ps))
      | Some p \<Rightarrow> Inl (ValueError (EndSmallerThanBegin (render p))))"
proof -
  have "list_all (\<lambda>p. CHR '','' \<notin> set p) (map render ps)"
    using assms(2) by (simp add: list_all_iff render_no_comma)
  with assms(1) have "split_on CHR '','' (join_with CHR '','' (map render ps)) = map render ps"
    by (intro split_on_join) simp_all
  with parse_parts_render [OF assms(2), of "[]"] show ?thesis
    by (simp add: parse_list_def split: option.splits)
qed

subsection \<open>The order on strings and the order on integers\<close>

text \<open>
  On digit strings of the same length, the order of line 42 is the order of the integers;
  on strings of different lengths it need not be (see the concrete specifications below).
\<close>

lemma is_digit_code: "is_digit c \<Longrightarrow> 48 \<le> (of_char c :: nat)"
  by (auto simp: is_digit_def)

lemma digit_order:
  assumes "is_digit x" and "is_digit y"
  shows "((of_char x :: nat) < of_char y) = (digit_val x < digit_val y)"
  using is_digit_code [OF assms(1)] is_digit_code [OF assms(2)]
  by (simp add: digit_val_def) arith

lemma digit_val_inj:
  assumes "is_digit x" and "is_digit y" and "digit_val x = digit_val y"
  shows "x = y"
proof -
  from is_digit_code [OF assms(1)] is_digit_code [OF assms(2)] assms(3)
  have "(of_char x :: nat) = of_char y" unfolding digit_val_def by arith
  then show ?thesis by simp
qed

lemma dec_nat_bound: "list_all is_digit s \<Longrightarrow> foldl dec_step 0 s < 10 ^ length s"
proof (induction s rule: rev_induct)
  case Nil
  show ?case by simp
next
  case (snoc c s)
  then have "foldl dec_step 0 s < 10 ^ length s" and "is_digit c" by simp_all
  moreover from \<open>is_digit c\<close> have "digit_val c < 10"
    by (auto simp: is_digit_def digit_val_def)
  ultimately have "dec_step (foldl dec_step 0 s) c < 10 * 10 ^ length s"
    unfolding dec_step_def [of "foldl dec_step 0 s" c] by linarith
  then show ?case by simp
qed

lemma dec_nat_Cons:
  "foldl dec_step 0 (c # s) = digit_val c * 10 ^ length s + foldl dec_step 0 s"
  using foldl_dec_shift [of "digit_val c" s] by (simp add: dec_step_def)

lemma str_less_same_length:
  assumes "length a = length b" and "list_all is_digit a" and "list_all is_digit b"
  shows "str_less b a = (foldl dec_step 0 b < foldl dec_step 0 a)"
  using assms
proof (induction a b rule: list_induct2)
  case Nil
  show ?case by simp
next
  case (Cons x xs y ys)
  let ?P = "(10::nat) ^ length ys"
  from Cons have dx: "is_digit x" and dy: "is_digit y"
    and xs: "list_all is_digit xs" and ys: "list_all is_digit ys" by simp_all
  have len: "length xs = length ys" by fact
  have bx: "foldl dec_step 0 xs < ?P" using dec_nat_bound [OF xs] len by simp
  have by': "foldl dec_step 0 ys < ?P" using dec_nat_bound [OF ys] by simp
  have IH: "str_less ys xs = (foldl dec_step 0 ys < foldl dec_step 0 xs)"
    using Cons.IH xs ys by simp
  have L: "foldl dec_step 0 (y # ys) = digit_val y * ?P + foldl dec_step 0 ys"
    by (rule dec_nat_Cons)
  have R: "foldl dec_step 0 (x # xs) = digit_val x * ?P + foldl dec_step 0 xs"
    using dec_nat_Cons [of x xs] len by simp
  have ord: "str_less (y # ys) (x # xs) =
      (if digit_val y < digit_val x then True
       else if digit_val x < digit_val y then False else str_less ys xs)"
    by (simp add: digit_order [OF dy dx] digit_order [OF dx dy])
  consider "digit_val y < digit_val x" | "digit_val x < digit_val y" | "digit_val x = digit_val y"
    by linarith
  then show ?case
  proof cases
    case 1
    then have "(digit_val y + 1) * ?P \<le> digit_val x * ?P" by (intro mult_le_mono1) simp
    with by' have "digit_val y * ?P + foldl dec_step 0 ys < digit_val x * ?P + foldl dec_step 0 xs"
      by (simp add: algebra_simps)
    with 1 show ?thesis unfolding ord L R by simp
  next
    case 2
    then have "(digit_val x + 1) * ?P \<le> digit_val y * ?P" by (intro mult_le_mono1) simp
    with bx have "\<not> digit_val y * ?P + foldl dec_step 0 ys < digit_val x * ?P + foldl dec_step 0 xs"
      by (simp add: algebra_simps)
    with 2 show ?thesis unfolding ord L R by simp
  next
    case 3
    with IH show ?thesis unfolding ord L R by simp
  qed
qed

lemma refused_same_width:
  assumes "digit_string a" and "digit_string b" and "length a = length b"
  shows "refused (Range a b) = (dec b < dec a)"
  using assms str_less_same_length [of a b] by (simp add: digit_string_def dec_def)

lemma refused_is_end_below_begin:
  assumes "well_formed p" and "same_width p"
  shows "refused p = end_below_begin p"
  using assms by (cases p) (simp_all add: refused_same_width del: refused.simps(2))

text \<open>
  So where every range is written with as many digits for its end as for its begin, as in
  \<open>004-010\<close> or \<open>00-36\<close>, \<open>parse_list\<close> fails exactly for a range whose end is the smaller
  integer, and returns the concatenation otherwise.
\<close>

lemma parse_list_same_width:
  assumes "ps \<noteq> []" and "list_all well_formed ps" and "list_all same_width ps"
  shows "parse_list (join_with CHR '','' (map render ps)) =
     (case List.find end_below_begin ps of
        None \<Rightarrow> Inr (concat (map expand ps))
      | Some p \<Rightarrow> Inl (ValueError (EndSmallerThanBegin (render p))))"
proof -
  have "List.find refused ps = List.find end_below_begin ps"
    using assms(2,3) by (intro find_cong) (simp_all add: list_all_iff refused_is_end_below_begin)
  with parse_list_well_formed [OF assms(1,2)] show ?thesis by simp
qed

section \<open>\<open>parse_list\<close> on concrete specifications\<close>

text \<open>
  The rules that evaluate \<open>int(s)\<close> and \<open>parse_list\<close> on string literals.
\<close>

lemmas int_eval = py_int_def strip_def is_space_def is_digit_def digit_val_def

lemmas parse_eval = parse_list_def parse_part_def int_eval upto.simps

text \<open>
  The two doctests of \<open>parse_list\<close>.
\<close>

lemma parse_list_doctest_1: "parse_list ''00-04,07,09-12'' = Inr [0, 1, 2, 3, 4, 7, 9, 10, 11, 12]"
  by (simp add: parse_eval)

lemma parse_list_doctest_2:
  "parse_list ''05-04'' = Inl (ValueError (EndSmallerThanBegin ''05-04''))"
  by (simp add: parse_eval)

text \<open>
  Claim C3.  The claim gives \<open>[8, 9, 10, 11, 12, 15]\<close> for \<open>8-12,15\<close>, the range from 8 to
  12 followed by 15.  The code compares \<open>end\<close> and \<open>begin\<close> in line 42 before it converts
  them, so as strings; \<open>12\<close> is smaller than \<open>8\<close> as a string, and the call raises the
  \<open>ValueError\<close> of line 43 for a range whose end is not smaller than its begin.
\<close>

theorem parse_list_wider_end_raises:
  "parse_list ''8-12,15'' = Inl (ValueError (EndSmallerThanBegin ''8-12''))"
  by (simp add: parse_eval)

text \<open>
  Claim C4.  The claim has \<open>parse_list\<close> fail on a part \<open>a-b\<close> exactly when the integer
  \<open>b\<close> is smaller than the integer \<open>a\<close>.  The comparison of line 42 is on the strings, and
  it differs from the one on the integers both ways: \<open>9-10\<close> raises although 10 is not
  smaller than 9, and \<open>10-9\<close> does not raise although 9 is smaller than 10 (it yields the
  empty range).
\<close>

theorem parse_list_compares_text:
  "parse_list ''9-10'' = Inl (ValueError (EndSmallerThanBegin ''9-10''))
   \<and> parse_list ''10-9'' = Inr []"
  by (simp add: parse_eval)

section \<open>\<open>getdata_alta\<close> on a staged observation\<close>

lemma py_int_181205005: "py_int ''181205005'' = Inr 181205005"
  by (simp add: int_eval)

lemma py_int_181205006: "py_int ''181205006'' = Inr 181205006"
  by (simp add: int_eval)

lemma recording_simps:
  "shell (recording ils) cmd w = (0, w @ [Shell cmd])"
  "os_rename (recording ils) src dst w = (True, w @ [Rename src dst])"
  "os_remove (recording ils) p w = (True, w @ [Remove p])"
  "popen_read (recording ils) cmd w = (''0'', w @ [Popen cmd])"
  by (simp_all add: recording_def)

lemmas transfer_eval =
  getdata_alta_def with_slash_def fetch_one_def get_alta_dir_recording recording_simps
  stage_tar_def archive_ms_def wcudata_2_def wcudata_3_def ingest_ms_def ms_name_def
  iget_cmd_def verify_one_def verify_log_def path_split_def path_join_def rstrip_slash_def
  Let_def py_eval

text \<open>
  Claim C9.  Two task ids, 5 and 6, of beam 35 are staged as tarballs and are fetched into
  the target \<open>/data/out\<close>; every command succeeds.  Line 161 removes the last character of
  \<open>targetdir\<close> inside the loop and the value is kept for the next pass.  The first pass
  removes the slash that line 140 added and handles \<open>/data/out.tar\<close> and \<open>/data/out\<close>.  The
  second pass removes a character of the name itself: the tarball is fetched to
  \<open>/data/ou.tar\<close> and the extracted directory is renamed to \<open>/data/ou\<close>, not to the name
  that was asked for.
\<close>

theorem second_tarball_goes_to_shortened_name:
  "getdata_alta (recording (\<lambda>argv. Some 0)) 181205 (Several [5, 6]) (Single 35)
       ''/data/out'' ''/tmp'' False False [] =
     (Inr (),
      [Call [''ils'', ''/altaZone/stage/apertif_main/visibilities_default/181205005/WSRTA181205005_B035.MS.tar''],
       Shell ''iget -rfPIT -X /tmp/WSRTA181205005_B035-icat.irods-status --lfrestart /tmp/WSRTA181205005_B035-icat.lf-irods-status --retries 5 /altaZone/stage/apertif_main/visibilities_default/181205005/WSRTA181205005_B035.MS.tar /data/out.tar'',
       Shell ''tar -xf /data/out.tar -C /data'',
       Rename ''/data/WSRTA181205005_B035.MS'' ''/data/out'',
       Remove ''/data/out.tar'',
       Call [''ils'', ''/altaZone/stage/apertif_main/visibilities_default/181205006/WSRTA181205006_B035.MS.tar''],
       Shell ''iget -rfPIT -X /tmp/WSRTA181205006_B035-icat.irods-status --lfrestart /tmp/WSRTA181205006_B035-icat.lf-irods-status --retries 5 /altaZone/stage/apertif_main/visibilities_default/181205006/WSRTA181205006_B035.MS.tar /data/ou.tar'',
       Shell ''tar -xf /data/ou.tar -C /data'',
       Rename ''/data/WSRTA181205006_B035.MS'' ''/data/ou'',
       Remove ''/data/ou.tar'',
       Shell ''rm -rf /tmp/*irods-status''])"
  by (simp add: transfer_eval py_int_181205005 py_int_181205006)

end
